theory Spec2Isabelle
  imports Main "HOL-Library.Multiset"
begin

section \<open>Python values, exceptions and HTTP replies\<close>

text \<open>
  The service of \<^verbatim>\<open>src/main.py\<close> is a set of Flask view functions over five MongoDB
  collections. A view either returns a reply (a value handed to \<^verbatim>\<open>jsonify\<close>, with a status
  code, 200 when the source gives none) or raises a Python exception. Both outcomes are
  values here: \<open>Inl\<close> carries the exception, \<open>Inr\<close> the reply.

  \<open>pyval\<close> is the type of the Python values that travel through the views: the values of
  the parsed JSON body, the fields of stored documents and the dictionaries and lists given
  to \<^verbatim>\<open>jsonify\<close>. A dictionary literal is kept as the list of its items in source order.
  A JSON number is carried as an integer: no view computes with a number, it is only
  compared with strings, stored or handed back.
\<close>

datatype pyval =
    PNone
  | PBool bool
  | PInt int
  | PStr string
  | PDatetime int
  | PList "pyval list"
  | PDict "(string \<times> pyval) list"

datatype pyerror =
    AttributeError string
  | TypeError string
  | KeyError string
  | HTTPException nat
  | OperationFailure string

record response =
  status :: nat
  body :: pyval

definition jsonify :: "pyval \<Rightarrow> nat \<Rightarrow> response" where
  "jsonify v code = \<lparr>status = code, body = v\<rparr>"

section \<open>Documents and the store\<close>

text \<open>
  Each collection holds documents of the shape its \<^verbatim>\<open>insert_one\<close> call site writes; the
  fields are prefixed with the collection's initial because the same key (\<^verbatim>\<open>post_id\<close>,
  \<^verbatim>\<open>user_id\<close>) occurs in several collections. Timestamps are integers (ticks of the clock).
  Only posts carry the \<^verbatim>\<open>_id\<close> that MongoDB assigns, since only the views over posts read
  it; \<open>p_oid\<close> is its hexadecimal text, which is what \<^verbatim>\<open>str(post["_id"])\<close> yields.

  The store also records every operation issued against a collection, in order, so that
  "no store access" can be stated.
\<close>

record user_doc =
  u_user_id :: string
  u_username :: string
  u_github_id :: int
  u_profile_picture :: pyval
  u_created_at :: int

record post_doc =
  p_oid :: string
  p_post_id :: string
  p_caption :: pyval
  p_image_url :: pyval
  p_music_url :: pyval
  p_category :: pyval
  p_datetime_posted :: int
  p_publisher_id :: string

record follow_doc =
  f_follower_id :: string
  f_following_id :: pyval
  f_followed_at :: int

record like_doc =
  l_post_id :: string
  l_user_id :: string
  l_liked_at :: int

record comment_doc =
  c_comment_id :: string
  c_post_id :: string
  c_user_id :: string
  c_comment :: pyval
  c_commented_at :: int

datatype collection = Users | Posts | Follows | Likes | Comments

datatype access =
    FindOne collection
  | Find collection
  | InsertOne collection
  | CountDocuments collection
  | DeleteOne collection

record store =
  users :: "user_doc list"
  posts :: "post_doc list"
  follows :: "follow_doc list"
  likes :: "like_doc list"
  comments :: "comment_doc list"
  accesses :: "access list"

definition touch :: "access \<Rightarrow> store \<Rightarrow> store" where
  "touch a s = s\<lparr>accesses := accesses s @ [a]\<rparr>"

text \<open>
  The collection operations of PyMongo the views call. A query document with plain values
  matches by equality on the named fields, so a query is a predicate on documents.
  \<^verbatim>\<open>find_one\<close> gives the first match or \<^verbatim>\<open>None\<close>, \<^verbatim>\<open>find\<close> all matches in stored order,
  \<^verbatim>\<open>count_documents\<close> their number, \<^verbatim>\<open>insert_one\<close> appends, \<^verbatim>\<open>delete_one\<close> removes the first
  match only.
\<close>

definition find_one :: "('a \<Rightarrow> bool) \<Rightarrow> 'a list \<Rightarrow> 'a option" where
  "find_one q docs = List.find q docs"

definition find_docs :: "('a \<Rightarrow> bool) \<Rightarrow> 'a list \<Rightarrow> 'a list" where
  "find_docs q docs = filter q docs"

definition count_documents :: "('a \<Rightarrow> bool) \<Rightarrow> 'a list \<Rightarrow> nat" where
  "count_documents q docs = length (filter q docs)"

definition insert_one :: "'a \<Rightarrow> 'a list \<Rightarrow> 'a list" where
  "insert_one d docs = docs @ [d]"

fun delete_one :: "('a \<Rightarrow> bool) \<Rightarrow> 'a list \<Rightarrow> 'a list" where
  "delete_one q [] = []"
| "delete_one q (d # docs) = (if q d then docs else d # delete_one q docs)"

text \<open>
  \<^verbatim>\<open>.sort("datetime_posted", -1)\<close>: the cursor's documents by descending timestamp.
\<close>

definition sort_desc :: "post_doc list \<Rightarrow> post_doc list" where
  "sort_desc ps = sort_key (\<lambda>p. - p_datetime_posted p) ps"

section \<open>Helper functions of the module\<close>

text \<open>
  What a request brings from outside the handler: the value the next \<^verbatim>\<open>uuid.uuid4()\<close>
  yields, the \<^verbatim>\<open>_id\<close> MongoDB would assign to an inserted post, the clock, and the way
  the database server evaluates a query operator document such as \<^verbatim>\<open>{"$ne": "x"}\<close>:
  \<open>mongo_operator e items\<close> is \<open>None\<close> when the server refuses the document and otherwise
  the predicate it denotes on field values. The server's operator language is no part of
  the sources, so it is a parameter.
\<close>

record env =
  uuid4 :: string
  object_id :: string
  clock :: int
  mongo_operator :: "(string \<times> pyval) list \<Rightarrow> (pyval \<Rightarrow> bool) option"

definition generate_uuid :: "env \<Rightarrow> string" where
  "generate_uuid e = uuid4 e"

fun join :: "string \<Rightarrow> string list \<Rightarrow> string" where
  "join sep [] = []"
| "join sep [x] = x"
| "join sep (x # y # ys) = x @ sep @ join sep (y # ys)"

text \<open>
  \<^verbatim>\<open>request.json\<close> is whatever JSON value the client sent. Only a JSON object parses to a
  dictionary; an array parses to a list, a string to a \<^verbatim>\<open>str\<close>, a number, \<^verbatim>\<open>true\<close>/\<^verbatim>\<open>false\<close>
  and \<^verbatim>\<open>null\<close> to a number, a \<^verbatim>\<open>bool\<close> and \<^verbatim>\<open>None\<close>. The views apply three operations to it,
  each with Python's meaning on every one of these shapes:
  \<^item> \<^verbatim>\<open>field in data\<close>: key membership on a dictionary, element membership on a list, the
    substring test on a string, \<^verbatim>\<open>TypeError\<close> on the rest;
  \<^item> \<^verbatim>\<open>data[field]\<close>: the value or \<^verbatim>\<open>KeyError\<close> on a dictionary, \<^verbatim>\<open>TypeError\<close> on the rest (a
    list or a string cannot be indexed by a string);
  \<^item> \<^verbatim>\<open>data.get(field)\<close>: the value or \<^verbatim>\<open>None\<close> on a dictionary, \<^verbatim>\<open>AttributeError\<close> on the rest.
\<close>

type_synonym pydict = "string \<rightharpoonup> pyval"

datatype json_value =
    JsonObject pydict
  | JsonArray "pyval list"
  | JsonString string
  | JsonNumber int
  | JsonBool bool
  | JsonNull

fun startswith :: "string \<Rightarrow> string \<Rightarrow> bool" where
  "startswith s [] = True"
| "startswith [] (c # p) = False"
| "startswith (x # s) (c # p) = (x = c \<and> startswith s p)"

fun str_contains :: "string \<Rightarrow> string \<Rightarrow> bool" where
  "str_contains [] sub = (sub = [])"
| "str_contains (x # s) sub = (startswith (x # s) sub \<or> str_contains s sub)"

fun py_in :: "string \<Rightarrow> json_value \<Rightarrow> pyerror + bool" where
  "py_in field (JsonObject d) = Inr (d field \<noteq> None)"
| "py_in field (JsonArray xs) = Inr (PStr field \<in> set xs)"
| "py_in field (JsonString s) = Inr (str_contains s field)"
| "py_in field (JsonNumber n) = Inl (TypeError ''argument of type int is not iterable'')"
| "py_in field (JsonBool b) = Inl (TypeError ''argument of type bool is not iterable'')"
| "py_in field JsonNull = Inl (TypeError ''argument of type NoneType is not iterable'')"

text \<open>
  The list comprehension of \<^verbatim>\<open>validate_request\<close>: the required fields that are not in
  \<^verbatim>\<open>data\<close>, in order; it raises at the first field when \<^verbatim>\<open>data\<close> admits no \<^verbatim>\<open>in\<close>.
\<close>

fun fields_not_in :: "string list \<Rightarrow> json_value \<Rightarrow> pyerror + string list" where
  "fields_not_in [] data = Inr []"
| "fields_not_in (field # others) data =
     (case py_in field data of
        Inl err \<Rightarrow> Inl err
      | Inr present \<Rightarrow>
          (case fields_not_in others data of
             Inl err \<Rightarrow> Inl err
           | Inr rest \<Rightarrow> Inr (if present then rest else field # rest)))"

definition validate_request :: "string list \<Rightarrow> json_value \<Rightarrow> pyerror + bool \<times> pyval" where
  "validate_request required_fields data =
     (case fields_not_in required_fields data of
        Inl err \<Rightarrow> Inl err
      | Inr missing_fields \<Rightarrow>
          if missing_fields \<noteq> []
          then Inr (False,
                 PDict [(''error'', PStr (''Missing fields: '' @ join '', '' missing_fields))])
          else Inr (True, PDict []))"

fun subscript :: "json_value \<Rightarrow> string \<Rightarrow> pyerror + pyval" where
  "subscript (JsonObject d) k = (case d k of None \<Rightarrow> Inl (KeyError k) | Some v \<Rightarrow> Inr v)"
| "subscript (JsonArray xs) k =
     Inl (TypeError ''list indices must be integers or slices, not str'')"
| "subscript (JsonString s) k = Inl (TypeError ''string indices must be integers, not str'')"
| "subscript (JsonNumber n) k = Inl (TypeError ''int object is not subscriptable'')"
| "subscript (JsonBool b) k = Inl (TypeError ''bool object is not subscriptable'')"
| "subscript JsonNull k = Inl (TypeError ''NoneType object is not subscriptable'')"

fun dict_get :: "json_value \<Rightarrow> string \<Rightarrow> pyerror + pyval" where
  "dict_get (JsonObject d) k = Inr (case d k of None \<Rightarrow> PNone | Some v \<Rightarrow> v)"
| "dict_get (JsonArray xs) k = Inl (AttributeError ''list object has no attribute get'')"
| "dict_get (JsonString s) k = Inl (AttributeError ''str object has no attribute get'')"
| "dict_get (JsonNumber n) k = Inl (AttributeError ''int object has no attribute get'')"
| "dict_get (JsonBool b) k = Inl (AttributeError ''bool object has no attribute get'')"
| "dict_get JsonNull k = Inl (AttributeError ''NoneType object has no attribute get'')"

text \<open>
  A value given to \<^verbatim>\<open>find_one\<close> for a field. PyMongo sends it to the server as it is: a
  dictionary whose first key starts with \<^verbatim>\<open>$\<close> is a query operator document, evaluated by
  the server (or refused, which PyMongo raises as \<^verbatim>\<open>OperationFailure\<close>); any other value
  is matched by equality.
\<close>

definition is_operator_document :: "(string \<times> pyval) list \<Rightarrow> bool" where
  "is_operator_document items =
     (case items of [] \<Rightarrow> False | (k, v) # rest \<Rightarrow> startswith k ''$'')"

definition field_query :: "env \<Rightarrow> pyval \<Rightarrow> pyerror + (pyval \<Rightarrow> bool)" where
  "field_query e q =
     (case q of
        PDict items \<Rightarrow>
          if is_operator_document items
          then (case mongo_operator e items of
                  None \<Rightarrow> Inl (OperationFailure ''unknown or malformed operator'')
                | Some matches \<Rightarrow> Inr matches)
          else Inr (\<lambda>v. v = q)
      | _ \<Rightarrow> Inr (\<lambda>v. v = q))"

text \<open>
  Line 6 of the module is \<^verbatim>\<open>from datetime import datetime\<close>: the name \<^verbatim>\<open>datetime\<close> is the
  class \<^verbatim>\<open>datetime.datetime\<close>, not the module. Every timestamp of the module is written
  \<^verbatim>\<open>datetime.now(datetime.timezone.utc)\<close>. Python evaluates the argument first, and the
  attribute lookup \<^verbatim>\<open>datetime.timezone\<close> on the class fails: \<^verbatim>\<open>timezone\<close> is a name of the
  module \<^verbatim>\<open>datetime\<close>, the class has no such attribute. So the expression raises
  \<^verbatim>\<open>AttributeError\<close> and \<^verbatim>\<open>now\<close> is never called.
\<close>

definition datetime_timezone :: "pyerror + unit" where
  "datetime_timezone =
     Inl (AttributeError ''type object datetime.datetime has no attribute timezone'')"

definition datetime_now_utc :: "env \<Rightarrow> pyerror + int" where
  "datetime_now_utc e =
     (case datetime_timezone of Inl err \<Rightarrow> Inl err | Inr tz \<Rightarrow> Inr (clock e))"

section \<open>Authentication\<close>

text \<open>
  Modelled from the spec: the decorator \<^verbatim>\<open>jwt_required()\<close> and \<^verbatim>\<open>get_jwt_identity()\<close>
  belong to the token library, which is not part of the sources. The spec's Session/Token
  Issuer gives their contract: \<^verbatim>\<open>resolve(token)\<close> yields the internal user id or fails with
  \<^verbatim>\<open>Unauthenticated\<close> when the token is missing, malformed, expired or wrongly signed;
  \<^verbatim>\<open>Unauthenticated\<close> is answered with status 401 and a body \<^verbatim>\<open>{"error": string}\<close>; every
  protected endpoint resolves the token before any store access. \<open>bearer\<close> is the outcome
  of that resolution for the request at hand.
\<close>

datatype token_outcome = Unauthenticated string | Identity string

text \<open>
  The body of the request as \<^verbatim>\<open>request.json\<close> meets it: Flask parses it when the request
  declares a JSON content type, and aborts otherwise, with 415 when the content type is not
  JSON and 400 when the body does not parse. The abort is an \<^verbatim>\<open>HTTPException\<close> raised where
  the view reads \<^verbatim>\<open>request.json\<close>.
\<close>

datatype json_body = NotJson | Malformed | Parsed json_value

record request =
  bearer :: token_outcome
  json :: json_body

definition request_json :: "request \<Rightarrow> pyerror + json_value" where
  "request_json req =
     (case json req of
        NotJson \<Rightarrow> Inl (HTTPException 415)
      | Malformed \<Rightarrow> Inl (HTTPException 400)
      | Parsed data \<Rightarrow> Inr data)"

type_synonym outcome = "(pyerror + response) \<times> store"

definition jwt_required :: "request \<Rightarrow> (string \<Rightarrow> store \<Rightarrow> outcome) \<Rightarrow> store \<Rightarrow> outcome" where
  "jwt_required req view s =
     (case bearer req of
        Unauthenticated msg \<Rightarrow> (Inr (jsonify (PDict [(''error'', PStr msg)]) 401), s)
      | Identity user_id \<Rightarrow> view user_id s)"

section \<open>The views\<close>

text \<open>
  A view \<^verbatim>\<open>f\<close> that the source decorates with \<^verbatim>\<open>@jwt_required()\<close> is modelled as
  \<open>jwt_required\<close> applied to \<open>f_body\<close>, the function under the decorator;
  \<open>f_body\<close> receives as \<open>user_id\<close> what \<^verbatim>\<open>get_jwt_identity()\<close> returns there. Each call on a
  collection is preceded by its entry in the access log.
\<close>

text \<open>
  A stored post as the dictionary the profile and feed views return, after
  \<^verbatim>\<open>post["_id"] = str(post["_id"])\<close>.
\<close>

definition post_dict :: "post_doc \<Rightarrow> pyval" where
  "post_dict p =
     PDict [(''_id'', PStr (p_oid p)),
            (''post_id'', PStr (p_post_id p)),
            (''caption'', p_caption p),
            (''image_url'', p_image_url p),
            (''music_url'', p_music_url p),
            (''category'', p_category p),
            (''datetime_posted'', PDatetime (p_datetime_posted p)),
            (''publisher_id'', PStr (p_publisher_id p))]"

subsection \<open>GET /user/profile\<close>

definition get_profile_body :: "string \<Rightarrow> store \<Rightarrow> outcome" where
  "get_profile_body user_id s0 =
     (let s1 = touch (FindOne Users) s0 in
      case find_one (\<lambda>u. u_user_id u = user_id) (users s1) of
        None \<Rightarrow> (Inr (jsonify (PDict [(''error'', PStr ''User not found'')]) 404), s1)
      | Some user \<Rightarrow>
          let s2 = touch (Find Posts) s1;
              user_posts = find_docs (\<lambda>p. p_publisher_id p = user_id) (posts s2);
              profile = PDict [(''username'', PStr (u_username user)),
                               (''profile_picture'', u_profile_picture user),
                               (''posts'', PList (map post_dict user_posts))]
          in (Inr (jsonify profile 200), s2))"

definition get_profile :: "request \<Rightarrow> store \<Rightarrow> outcome" where
  "get_profile req s = jwt_required req get_profile_body s"

subsection \<open>POST /post\<close>

definition create_post_body :: "env \<Rightarrow> request \<Rightarrow> string \<Rightarrow> store \<Rightarrow> outcome" where
  "create_post_body e req user_id s0 =
     (case request_json req of
        Inl err \<Rightarrow> (Inl err, s0)
      | Inr data \<Rightarrow>
     (case validate_request [''caption'', ''image_url''] data of
        Inl err \<Rightarrow> (Inl err, s0)
      | Inr (False, error_response) \<Rightarrow> (Inr (jsonify error_response 400), s0)
      | Inr (True, _) \<Rightarrow>
          let post_id = generate_uuid e in
          (case subscript data ''caption'' of
             Inl err \<Rightarrow> (Inl err, s0)
           | Inr caption \<Rightarrow>
          (case subscript data ''image_url'' of
             Inl err \<Rightarrow> (Inl err, s0)
           | Inr image_url \<Rightarrow>
          (case dict_get data ''music_url'' of
             Inl err \<Rightarrow> (Inl err, s0)
           | Inr music_url \<Rightarrow>
          (case dict_get data ''category'' of
             Inl err \<Rightarrow> (Inl err, s0)
           | Inr category \<Rightarrow>
          (case datetime_now_utc e of
             Inl err \<Rightarrow> (Inl err, s0)
           | Inr now \<Rightarrow>
               let post = \<lparr>p_oid = object_id e,
                           p_post_id = post_id,
                           p_caption = caption,
                           p_image_url = image_url,
                           p_music_url = music_url,
                           p_category = category,
                           p_datetime_posted = now,
                           p_publisher_id = user_id\<rparr>;
                   s1 = touch (InsertOne Posts) s0;
                   s2 = s1\<lparr>posts := insert_one post (posts s1)\<rparr>
               in (Inr (jsonify (PDict [(''message'', PStr ''Post created successfully''),
                                        (''post_id'', PStr post_id)]) 201), s2))))))))"

definition create_post :: "env \<Rightarrow> request \<Rightarrow> store \<Rightarrow> outcome" where
  "create_post e req s = jwt_required req (create_post_body e req) s"

subsection \<open>GET /post/<post_id>\<close>

text \<open>
  The dictionary literal \<^verbatim>\<open>post_details\<close> is evaluated item by item: the subscript
  \<^verbatim>\<open>publisher["username"]\<close> comes before the two counts, and on \<^verbatim>\<open>publisher = None\<close> it
  raises \<^verbatim>\<open>TypeError\<close>.
\<close>

definition get_post_details :: "string \<Rightarrow> store \<Rightarrow> outcome" where
  "get_post_details post_id s0 =
     (let s1 = touch (FindOne Posts) s0 in
      case find_one (\<lambda>p. p_post_id p = post_id) (posts s1) of
        None \<Rightarrow> (Inr (jsonify (PDict [(''error'', PStr ''Post not found'')]) 404), s1)
      | Some post \<Rightarrow>
          let s2 = touch (FindOne Users) s1 in
          (case find_one (\<lambda>u. u_user_id u = p_publisher_id post) (users s2) of
             None \<Rightarrow> (Inl (TypeError ''NoneType object is not subscriptable''), s2)
           | Some publisher \<Rightarrow>
               let s3 = touch (CountDocuments Likes) s2;
                   likes_count = count_documents (\<lambda>l. l_post_id l = post_id) (likes s3);
                   s4 = touch (CountDocuments Comments) s3;
                   comments_count = count_documents (\<lambda>c. c_post_id c = post_id) (comments s4);
                   post_details =
                     PDict [(''caption'', p_caption post),
                            (''image_url'', p_image_url post),
                            (''music_url'', p_music_url post),
                            (''category'', p_category post),
                            (''datetime_posted'', PDatetime (p_datetime_posted post)),
                            (''publisher'',
                               PDict [(''username'', PStr (u_username publisher)),
                                      (''profile_picture'', u_profile_picture publisher)]),
                            (''likes_count'', PInt (int likes_count)),
                            (''comments_count'', PInt (int comments_count))]
               in (Inr (jsonify post_details 200), s4)))"

subsection \<open>POST /follow\<close>

definition follow_user_body :: "env \<Rightarrow> request \<Rightarrow> string \<Rightarrow> store \<Rightarrow> outcome" where
  "follow_user_body e req user_id s0 =
     (case request_json req of
        Inl err \<Rightarrow> (Inl err, s0)
      | Inr data \<Rightarrow>
     (case validate_request [''follow_user_id''] data of
        Inl err \<Rightarrow> (Inl err, s0)
      | Inr (False, error_response) \<Rightarrow> (Inr (jsonify error_response 400), s0)
      | Inr (True, _) \<Rightarrow>
     (case dict_get data ''follow_user_id'' of
        Inl err \<Rightarrow> (Inl err, s0)
      | Inr follow_user_id \<Rightarrow>
          let s1 = touch (FindOne Users) s0 in
          (case field_query e follow_user_id of
             Inl err \<Rightarrow> (Inl err, s1)
           | Inr matches \<Rightarrow>
          if find_one (\<lambda>u. matches (PStr (u_user_id u))) (users s1) = None
          then (Inr (jsonify (PDict [(''error'', PStr ''User to follow does not exist'')]) 404), s1)
          else
            let s2 = touch (FindOne Follows) s1 in
            if find_one (\<lambda>f. f_follower_id f = user_id \<and> matches (f_following_id f))
                 (follows s2) \<noteq> None
            then (Inr (jsonify (PDict [(''message'', PStr ''Already following'')]) 200), s2)
            else
              (case datetime_now_utc e of
                 Inl err \<Rightarrow> (Inl err, s2)
               | Inr now \<Rightarrow>
                   let edge = \<lparr>f_follower_id = user_id,
                               f_following_id = follow_user_id,
                               f_followed_at = now\<rparr>;
                       s3 = touch (InsertOne Follows) s2;
                       s4 = s3\<lparr>follows := insert_one edge (follows s3)\<rparr>
                   in (Inr (jsonify (PDict [(''message'', PStr ''Successfully followed'')]) 200),
                       s4))))))"

definition follow_user :: "env \<Rightarrow> request \<Rightarrow> store \<Rightarrow> outcome" where
  "follow_user e req s = jwt_required req (follow_user_body e req) s"

subsection \<open>GET /feed\<close>

definition following_ids :: "string \<Rightarrow> store \<Rightarrow> pyval list" where
  "following_ids user_id s =
     map f_following_id (find_docs (\<lambda>f. f_follower_id f = user_id) (follows s))"

definition feed_posts :: "string \<Rightarrow> store \<Rightarrow> post_doc list" where
  "feed_posts user_id s =
     sort_desc (find_docs (\<lambda>p. PStr (p_publisher_id p) \<in> set (following_ids user_id s)) (posts s))"

definition get_feed_body :: "string \<Rightarrow> store \<Rightarrow> outcome" where
  "get_feed_body user_id s0 =
     (let s1 = touch (Find Follows) s0;
          s2 = touch (Find Posts) s1;
          paginated_posts = map post_dict (feed_posts user_id s2)
      in (Inr (jsonify (PList paginated_posts) 200), s2))"

definition get_feed :: "request \<Rightarrow> store \<Rightarrow> outcome" where
  "get_feed req s = jwt_required req get_feed_body s"

subsection \<open>POST and DELETE /post/<post_id>/like\<close>

definition like_post_body :: "env \<Rightarrow> string \<Rightarrow> string \<Rightarrow> store \<Rightarrow> outcome" where
  "like_post_body e post_id user_id s0 =
     (let s1 = touch (FindOne Posts) s0 in
      if find_one (\<lambda>p. p_post_id p = post_id) (posts s1) = None
      then (Inr (jsonify (PDict [(''error'', PStr ''Post not found'')]) 404), s1)
      else
        let s2 = touch (FindOne Likes) s1 in
        if find_one (\<lambda>l. l_post_id l = post_id \<and> l_user_id l = user_id) (likes s2) \<noteq> None
        then (Inr (jsonify (PDict [(''message'', PStr ''Post already liked'')]) 200), s2)
        else
          (case datetime_now_utc e of
             Inl err \<Rightarrow> (Inl err, s2)
           | Inr now \<Rightarrow>
               let like = \<lparr>l_post_id = post_id, l_user_id = user_id, l_liked_at = now\<rparr>;
                   s3 = touch (InsertOne Likes) s2;
                   s4 = s3\<lparr>likes := insert_one like (likes s3)\<rparr>
               in (Inr (jsonify (PDict [(''message'', PStr ''Post liked successfully'')]) 200), s4)))"

definition like_post :: "env \<Rightarrow> string \<Rightarrow> request \<Rightarrow> store \<Rightarrow> outcome" where
  "like_post e post_id req s = jwt_required req (like_post_body e post_id) s"

definition unlike_post_body :: "string \<Rightarrow> string \<Rightarrow> store \<Rightarrow> outcome" where
  "unlike_post_body post_id user_id s0 =
     (let s1 = touch (FindOne Posts) s0 in
      if find_one (\<lambda>p. p_post_id p = post_id) (posts s1) = None
      then (Inr (jsonify (PDict [(''error'', PStr ''Post not found'')]) 404), s1)
      else
        let s2 = touch (FindOne Likes) s1 in
        if find_one (\<lambda>l. l_post_id l = post_id \<and> l_user_id l = user_id) (likes s2) = None
        then (Inr (jsonify (PDict [(''message'', PStr ''Post not liked yet'')]) 200), s2)
        else
          let s3 = touch (DeleteOne Likes) s2;
              s4 = s3\<lparr>likes :=
                        delete_one (\<lambda>l. l_post_id l = post_id \<and> l_user_id l = user_id) (likes s3)\<rparr>
          in (Inr (jsonify (PDict [(''message'', PStr ''Post unliked successfully'')]) 200), s4))"

definition unlike_post :: "string \<Rightarrow> request \<Rightarrow> store \<Rightarrow> outcome" where
  "unlike_post post_id req s = jwt_required req (unlike_post_body post_id) s"

subsection \<open>POST /post/<post_id>/comment\<close>

definition add_comment_body :: "env \<Rightarrow> string \<Rightarrow> request \<Rightarrow> string \<Rightarrow> store \<Rightarrow> outcome" where
  "add_comment_body e post_id req user_id s0 =
     (case request_json req of
        Inl err \<Rightarrow> (Inl err, s0)
      | Inr data \<Rightarrow>
     (case validate_request [''comment''] data of
        Inl err \<Rightarrow> (Inl err, s0)
      | Inr (False, error_response) \<Rightarrow> (Inr (jsonify error_response 400), s0)
      | Inr (True, _) \<Rightarrow>
          let s1 = touch (FindOne Posts) s0 in
          if find_one (\<lambda>p. p_post_id p = post_id) (posts s1) = None
          then (Inr (jsonify (PDict [(''error'', PStr ''Post not found'')]) 404), s1)
          else
            let comment_id = generate_uuid e in
            (case subscript data ''comment'' of
               Inl err \<Rightarrow> (Inl err, s1)
             | Inr comment_text \<Rightarrow>
            (case datetime_now_utc e of
               Inl err \<Rightarrow> (Inl err, s1)
             | Inr now \<Rightarrow>
                 let comment = \<lparr>c_comment_id = comment_id,
                                c_post_id = post_id,
                                c_user_id = user_id,
                                c_comment = comment_text,
                                c_commented_at = now\<rparr>;
                     s2 = touch (InsertOne Comments) s1;
                     s3 = s2\<lparr>comments := insert_one comment (comments s2)\<rparr>
                 in (Inr (jsonify (PDict [(''message'', PStr ''Comment added successfully''),
                                          (''comment_id'', PStr comment_id)]) 200), s3)))))"

definition add_comment :: "env \<Rightarrow> string \<Rightarrow> request \<Rightarrow> store \<Rightarrow> outcome" where
  "add_comment e post_id req s = jwt_required req (add_comment_body e post_id req) s"

section \<open>Example stores and requests\<close>

definition env0 :: env where
  "env0 = \<lparr>uuid4 = ''uuid-1'', object_id = ''oid-1'', clock = 100,
             mongo_operator = (\<lambda>items. None)\<rparr>"

definition empty_store :: store where
  "empty_store = \<lparr>users = [], posts = [], follows = [], likes = [], comments = [], accesses = []\<rparr>"

definition alice :: user_doc where
  "alice = \<lparr>u_user_id = ''alice'', u_username = ''Alice'', u_github_id = 1,
             u_profile_picture = PNone, u_created_at = 1\<rparr>"

definition bob :: user_doc where
  "bob = \<lparr>u_user_id = ''bob'', u_username = ''Bob'', u_github_id = 2,
           u_profile_picture = PStr ''http://pic/bob'', u_created_at = 2\<rparr>"

definition mk_post :: "string \<Rightarrow> string \<Rightarrow> int \<Rightarrow> post_doc" where
  "mk_post pid publisher t =
     \<lparr>p_oid = ''oid-'' @ pid, p_post_id = pid, p_caption = PStr ''hello'',
      p_image_url = PStr ''http://img'', p_music_url = PNone, p_category = PNone,
      p_datetime_posted = t, p_publisher_id = publisher\<rparr>"

definition mk_follow :: "string \<Rightarrow> string \<Rightarrow> follow_doc" where
  "mk_follow a b = \<lparr>f_follower_id = a, f_following_id = PStr b, f_followed_at = 0\<rparr>"

definition mk_like :: "string \<Rightarrow> string \<Rightarrow> like_doc" where
  "mk_like pid uid = \<lparr>l_post_id = pid, l_user_id = uid, l_liked_at = 0\<rparr>"

definition as_user :: "string \<Rightarrow> pydict \<Rightarrow> request" where
  "as_user uid data = \<lparr>bearer = Identity uid, json = Parsed (JsonObject data)\<rparr>"

definition anonymous :: "pydict \<Rightarrow> request" where
  "anonymous data =
     \<lparr>bearer = Unauthenticated ''Missing Authorization Header'', json = Parsed (JsonObject data)\<rparr>"

definition sending :: "string \<Rightarrow> json_value \<Rightarrow> request" where
  "sending uid v = \<lparr>bearer = Identity uid, json = Parsed v\<rparr>"

definition attribute_error :: pyerror where
  "attribute_error = AttributeError ''type object datetime.datetime has no attribute timezone''"

definition orphan_store :: store where
  "orphan_store = empty_store\<lparr>posts := [mk_post ''p1'' ''ghost'' 7]\<rparr>"

definition people_store :: store where
  "people_store = empty_store\<lparr>users := [alice, bob], posts := [mk_post ''p1'' ''bob'' 7]\<rparr>"

definition feed_store :: store where
  "feed_store = empty_store
     \<lparr>posts := [mk_post ''p1'' ''bob'' 1, mk_post ''p2'' ''dave'' 3, mk_post ''p3'' ''carol'' 5],
      follows := [mk_follow ''alice'' ''bob'', mk_follow ''alice'' ''carol'', mk_follow ''bob'' ''dave'']\<rparr>"

definition liked_store :: store where
  "liked_store = people_store\<lparr>likes := [mk_like ''p1'' ''bob'', mk_like ''p1'' ''alice'']\<rparr>"

section \<open>Lemmas\<close>

lemmas ex_defs = env0_def empty_store_def alice_def bob_def mk_post_def mk_follow_def mk_like_def
  as_user_def anonymous_def sending_def attribute_error_def orphan_store_def people_store_def feed_store_def liked_store_def

lemma touch_fields [simp]:
  "users (touch a s) = users s" "posts (touch a s) = posts s" "follows (touch a s) = follows s"
  "likes (touch a s) = likes s" "comments (touch a s) = comments s"
  "accesses (touch a s) = accesses s @ [a]"
  by (simp_all add: touch_def)

lemma datetime_now_utc_raises [simp]: "datetime_now_utc e = Inl attribute_error"
  by (simp add: datetime_now_utc_def datetime_timezone_def attribute_error_def)

lemma find_one_None_iff: "find_one q xs = None \<longleftrightarrow> (\<forall>x\<in>set xs. \<not> q x)"
  by (auto simp: find_one_def find_None_iff)

lemma find_one_Some_holds: "find_one q xs = Some x \<Longrightarrow> x \<in> set xs \<and> q x"
  by (auto simp: find_one_def find_Some_iff)

lemma delete_one_remove1: "find_one q xs = Some x \<Longrightarrow> delete_one q xs = remove1 x xs"
proof (induction xs)
  case Nil
  then show ?case by (simp add: find_one_def)
next
  case (Cons a xs)
  then show ?case
    using find_one_Some_holds [of q xs x] by (auto simp: find_one_def split: if_splits)
qed

lemma count_delete_one:
  "\<exists>x\<in>set xs. q x \<Longrightarrow> Suc (count_documents q (delete_one q xs)) = count_documents q xs"
  by (induction xs) (auto simp: count_documents_def)

lemma sort_desc_mset: "mset (sort_desc ps) = mset ps"
  by (simp add: sort_desc_def)

lemma sort_desc_sorted:
  "sorted_wrt (\<lambda>p q. p_datetime_posted q \<le> p_datetime_posted p) (sort_desc ps)"
proof -
  have "sorted (map (\<lambda>p. - p_datetime_posted p) (sort_desc ps))"
    by (simp add: sort_desc_def)
  then show ?thesis by (simp add: sorted_map)
qed

lemma feed_posts_touch [simp]: "feed_posts uid (touch a s) = feed_posts uid s"
  by (simp add: feed_posts_def following_ids_def)

lemma following_ids_set:
  "v \<in> set (following_ids uid s) \<longleftrightarrow> (\<exists>f\<in>set (follows s). f_follower_id f = uid \<and> f_following_id f = v)"
  by (auto simp: following_ids_def find_docs_def)

lemma request_json_parsed [simp]: "json req = Parsed data \<Longrightarrow> request_json req = Inr data"
  by (simp add: request_json_def)

lemma field_query_str [simp]: "field_query e (PStr t) = Inr (\<lambda>v. v = PStr t)"
  by (simp add: field_query_def)

lemma missing_caption_message:
  "d ''caption'' = None \<Longrightarrow>
   validate_request [''caption'', ''image_url''] (JsonObject d) =
     Inr (False, PDict [(''error'', PStr (''Missing fields: caption'' @
         (if d ''image_url'' = None then '', image_url'' else [])))])"
  by (simp add: validate_request_def)

lemma get_post_details_unresolved_publisher:
  assumes "find_one (\<lambda>p. p_post_id p = post_id) (posts s) = Some post"
    and "\<forall>u\<in>set (users s). u_user_id u \<noteq> p_publisher_id post"
  shows "fst (get_post_details post_id s) = Inl (TypeError ''NoneType object is not subscriptable'')"
proof -
  have "find_one (\<lambda>u. u_user_id u = p_publisher_id post) (users s) = None"
    using assms(2) by (simp add: find_one_None_iff)
  then show ?thesis
    using assms(1) by (simp add: get_post_details_def Let_def)
qed

lemma create_post_body_valid_raises:
  assumes "json req = Parsed (JsonObject d)"
    and "d ''caption'' \<noteq> None" and "d ''image_url'' \<noteq> None"
  shows "create_post_body e req user_id s = (Inl attribute_error, s)"
  using assms by (auto simp: create_post_body_def validate_request_def)

lemma follow_user_body_first_raises:
  assumes "json req = Parsed (JsonObject d)"
    and "d ''follow_user_id'' = Some (PStr target)"
    and "\<exists>u\<in>set (users s). u_user_id u = target"
    and "\<forall>f\<in>set (follows s). \<not> (f_follower_id f = user_id \<and> f_following_id f = PStr target)"
  shows "fst (follow_user_body e req user_id s) = Inl attribute_error"
    and "follows (snd (follow_user_body e req user_id s)) = follows s"
  using assms
  by (auto simp: follow_user_body_def validate_request_def Let_def find_one_None_iff)

lemma follow_user_body_already_following:
  assumes "json req = Parsed (JsonObject d)"
    and "d ''follow_user_id'' = Some (PStr target)"
    and "\<exists>u\<in>set (users s). u_user_id u = target"
    and "\<exists>f\<in>set (follows s). f_follower_id f = user_id \<and> f_following_id f = PStr target"
  shows "fst (follow_user_body e req user_id s)
           = Inr (jsonify (PDict [(''message'', PStr ''Already following'')]) 200)"
    and "follows (snd (follow_user_body e req user_id s)) = follows s"
  using assms
  by (auto simp: follow_user_body_def validate_request_def Let_def find_one_None_iff)

lemma like_post_body_first_raises:
  assumes "\<exists>p\<in>set (posts s). p_post_id p = post_id"
    and "\<forall>l\<in>set (likes s). \<not> (l_post_id l = post_id \<and> l_user_id l = user_id)"
  shows "fst (like_post_body e post_id user_id s) = Inl attribute_error"
    and "likes (snd (like_post_body e post_id user_id s)) = likes s"
  using assms by (auto simp: like_post_body_def Let_def find_one_None_iff)

lemma like_post_body_already_liked:
  assumes "\<exists>p\<in>set (posts s). p_post_id p = post_id"
    and "\<exists>l\<in>set (likes s). l_post_id l = post_id \<and> l_user_id l = user_id"
  shows "fst (like_post_body e post_id user_id s)
           = Inr (jsonify (PDict [(''message'', PStr ''Post already liked'')]) 200)"
    and "likes (snd (like_post_body e post_id user_id s)) = likes s"
  using assms by (auto simp: like_post_body_def Let_def find_one_None_iff)

lemma get_profile_authenticated_reads_users:
  "bearer req = Identity uid \<Longrightarrow>
   take (Suc (length (accesses s))) (accesses (snd (get_profile req s))) = accesses s @ [FindOne Users]"
  by (simp add: get_profile_def jwt_required_def get_profile_body_def Let_def split: option.splits)

section \<open>The claims\<close>

text \<open>
  C1. The claim asks that GET /post/<post_id> never faults on a stored post whose
  \<^verbatim>\<open>publisher_id\<close> resolves to no user. The view does fault: for the post \<^verbatim>\<open>p1\<close> published
  by \<^verbatim>\<open>ghost\<close>, with no such user stored, \<^verbatim>\<open>users.find_one\<close> gives \<^verbatim>\<open>None\<close> and the subscript
  \<^verbatim>\<open>publisher["username"]\<close> raises \<^verbatim>\<open>TypeError\<close>.
\<close>

theorem get_post_details_orphan_raises: "fst (get_post_details ''p1'' orphan_store)
     = Inl (TypeError ''NoneType object is not subscriptable'')"
  by (simp add: get_post_details_def ex_defs find_one_def)

text \<open>
  C2. The claim asks that an authenticated POST /post with \<^verbatim>\<open>caption\<close> and \<^verbatim>\<open>image_url\<close>
  inserts one post and answers 201. For alice and the body
  \<^verbatim>\<open>{"caption": "hello", "image_url": "http://img"}\<close> the view raises \<^verbatim>\<open>AttributeError\<close> while
  building the post (its timestamp), and the store is left as it was: nothing is inserted,
  no collection is even accessed.
\<close>

theorem create_post_raises_at_valid_body: "create_post env0 (as_user ''alice'' [''caption'' \<mapsto> PStr ''hello'', ''image_url'' \<mapsto> PStr ''http://img'']) people_store
   = (Inl attribute_error, people_store)"
  by (simp add: create_post_def jwt_required_def create_post_body_def as_user_def validate_request_def)

text \<open>
  C3. For every authenticated user, GET /feed answers 200 with a list of posts that
  \<^item> holds exactly (as a multiset) the stored posts whose publisher the user follows,
  \<^item> is ordered by posted timestamp descending: no post stands before a strictly newer one,
  \<^item> is empty when the user has no follow edge.
\<close>

theorem get_feed_followed_newest_first:
  assumes "bearer req = Identity uid"
  shows "fst (get_feed req s) = Inr (jsonify (PList (map post_dict (feed_posts uid s))) 200)
    \<and> mset (feed_posts uid s) =
        mset (filter (\<lambda>p. \<exists>f\<in>set (follows s). f_follower_id f = uid
                            \<and> f_following_id f = PStr (p_publisher_id p)) (posts s))
    \<and> (\<forall>i j. i < j \<longrightarrow> j < length (feed_posts uid s) \<longrightarrow>
          p_datetime_posted (feed_posts uid s ! j) \<le> p_datetime_posted (feed_posts uid s ! i))
    \<and> ((\<forall>f\<in>set (follows s). f_follower_id f \<noteq> uid) \<longrightarrow> feed_posts uid s = [])"
proof -
  have reply: "fst (get_feed req s) = Inr (jsonify (PList (map post_dict (feed_posts uid s))) 200)"
    using assms by (simp add: get_feed_def jwt_required_def get_feed_body_def)
  have content: "mset (feed_posts uid s) =
        mset (filter (\<lambda>p. \<exists>f\<in>set (follows s). f_follower_id f = uid
                            \<and> f_following_id f = PStr (p_publisher_id p)) (posts s))"
    by (simp add: feed_posts_def sort_desc_mset find_docs_def following_ids_set)
  have order: "\<forall>i j. i < j \<longrightarrow> j < length (feed_posts uid s) \<longrightarrow>
          p_datetime_posted (feed_posts uid s ! j) \<le> p_datetime_posted (feed_posts uid s ! i)"
    using sort_desc_sorted unfolding feed_posts_def
    by (simp add: sorted_wrt_iff_nth_less)
  have nobody: "(\<forall>f\<in>set (follows s). f_follower_id f \<noteq> uid) \<longrightarrow> feed_posts uid s = []"
  proof
    assume "\<forall>f\<in>set (follows s). f_follower_id f \<noteq> uid"
    then have "following_ids uid s = []"
      by (simp add: following_ids_def find_docs_def filter_empty_conv)
    then show "feed_posts uid s = []"
      by (simp add: feed_posts_def find_docs_def sort_desc_def)
  qed
  from reply content order nobody show ?thesis by blast
qed

text \<open>
  At a store where alice follows bob and carol (and bob follows dave): her feed is carol's
  post (time 5) then bob's (time 1), dave's is left out; eve, who follows nobody, gets
  the empty feed.
\<close>

theorem get_feed_followed_newest_first_witness:
  "bearer (as_user ''alice'' Map.empty) = Identity ''alice''
   \<and> fst (get_feed (as_user ''alice'' Map.empty) feed_store) =
       Inr (jsonify (PList [post_dict (mk_post ''p3'' ''carol'' 5), post_dict (mk_post ''p1'' ''bob'' 1)]) 200)
   \<and> feed_posts ''eve'' feed_store = []"
proof -
  have h: "bearer (as_user ''alice'' Map.empty) = Identity ''alice''"
    by (simp add: as_user_def)
  have f: "feed_posts ''alice'' feed_store = [mk_post ''p3'' ''carol'' 5, mk_post ''p1'' ''bob'' 1]"
    by (simp add: feed_posts_def following_ids_def find_docs_def sort_desc_def ex_defs)
  have e: "\<forall>f\<in>set (follows feed_store). f_follower_id f \<noteq> ''eve''"
    by (simp add: ex_defs)
  have h2: "bearer (as_user ''eve'' Map.empty) = Identity ''eve''"
    by (simp add: as_user_def)
  show ?thesis
    using get_feed_followed_newest_first [OF h, of feed_store] get_feed_followed_newest_first [OF h2, of feed_store] h f e by simp
qed

text \<open>
  C4. The claim asks that two POST /follow calls for the same pair leave exactly one edge,
  the second call answering with a success message. With alice and bob stored and no edge
  yet, alice's first call raises \<^verbatim>\<open>AttributeError\<close> while building the edge (its timestamp)
  and stores nothing, so the second call raises as well and no edge is stored at all.
\<close>

theorem follow_twice_stores_no_edge:
  "fst (follow_user env0 (as_user ''alice'' [''follow_user_id'' \<mapsto> PStr ''bob'']) people_store)
     = Inl attribute_error
   \<and> fst (follow_user env0 (as_user ''alice'' [''follow_user_id'' \<mapsto> PStr ''bob''])
        (snd (follow_user env0 (as_user ''alice'' [''follow_user_id'' \<mapsto> PStr ''bob'']) people_store)))
     = Inl attribute_error
   \<and> follows (snd (follow_user env0 (as_user ''alice'' [''follow_user_id'' \<mapsto> PStr ''bob''])
        (snd (follow_user env0 (as_user ''alice'' [''follow_user_id'' \<mapsto> PStr ''bob'']) people_store))))
     = []"
  by (simp add: follow_user_def jwt_required_def follow_user_body_def validate_request_def
      find_one_def as_user_def people_store_def empty_store_def alice_def bob_def)

text \<open>
  C5. The claim asks that a second POST /post/<post_id>/like by the same user answers
  "already liked" and that the like count stays 1. For the stored post \<^verbatim>\<open>p1\<close> and alice, the
  first call raises \<^verbatim>\<open>AttributeError\<close> while building the like (its timestamp) and stores
  nothing; the second call raises in the same way, and the post's like count is 0.
\<close>

theorem like_twice_counts_zero:
  "fst (like_post env0 ''p1'' (as_user ''alice'' Map.empty) people_store) = Inl attribute_error
   \<and> fst (like_post env0 ''p1'' (as_user ''alice'' Map.empty)
        (snd (like_post env0 ''p1'' (as_user ''alice'' Map.empty) people_store)))
     = Inl attribute_error
   \<and> count_documents (\<lambda>l. l_post_id l = ''p1'')
        (likes (snd (like_post env0 ''p1'' (as_user ''alice'' Map.empty)
           (snd (like_post env0 ''p1'' (as_user ''alice'' Map.empty) people_store))))) = 0"
  by (simp add: like_post_def jwt_required_def like_post_body_def find_one_def count_documents_def
      as_user_def people_store_def empty_store_def mk_post_def)

text \<open>
  C6. The claim asks that a post read back right after its creation shows the caption,
  image, music and category it was created with. Alice's create request with all four fields
  raises \<^verbatim>\<open>AttributeError\<close> and stores nothing, so reading the post id the request generated
  answers 404.
\<close>

theorem create_then_get_not_found:
  "fst (create_post env0 (as_user ''alice'' [''caption'' \<mapsto> PStr ''sunset'', ''image_url'' \<mapsto> PStr ''http://img/1'',
           ''music_url'' \<mapsto> PStr ''http://music/1'', ''category'' \<mapsto> PStr ''travel'']) people_store)
     = Inl attribute_error
   \<and> fst (get_post_details (uuid4 env0)
        (snd (create_post env0 (as_user ''alice'' [''caption'' \<mapsto> PStr ''sunset'', ''image_url'' \<mapsto> PStr ''http://img/1'',
           ''music_url'' \<mapsto> PStr ''http://music/1'', ''category'' \<mapsto> PStr ''travel'']) people_store)))
     = Inr (jsonify (PDict [(''error'', PStr ''Post not found'')]) 404)"
  by (simp add: create_post_def jwt_required_def create_post_body_def validate_request_def
      get_post_details_def find_one_def as_user_def people_store_def empty_store_def mk_post_def env0_def)

text \<open>
  C7. For every DELETE /post/<post_id>/like by an authenticated user:
  \<^item> when no stored post has that id, the answer is 404 (and the likes are untouched);
  \<^item> when the post exists and the user has no like on it, the answer is the success
    message "Post not liked yet" and the likes collection is unchanged;
  \<^item> when the user has a like on it, the answer is "Post unliked successfully", one such
    like is removed from the collection and nothing else changes in it: the number of
    the user's likes on the post drops by one.
\<close>

theorem unlike_post_cases:
  assumes "bearer req = Identity uid"
  shows "((\<forall>p\<in>set (posts s). p_post_id p \<noteq> pid) \<longrightarrow>
            fst (unlike_post pid req s) = Inr (jsonify (PDict [(''error'', PStr ''Post not found'')]) 404)
          \<and> likes (snd (unlike_post pid req s)) = likes s)
       \<and> ((\<exists>p\<in>set (posts s). p_post_id p = pid)
            \<and> (\<forall>l\<in>set (likes s). \<not> (l_post_id l = pid \<and> l_user_id l = uid)) \<longrightarrow>
            fst (unlike_post pid req s) = Inr (jsonify (PDict [(''message'', PStr ''Post not liked yet'')]) 200)
          \<and> likes (snd (unlike_post pid req s)) = likes s)
       \<and> ((\<exists>p\<in>set (posts s). p_post_id p = pid)
            \<and> (\<exists>l\<in>set (likes s). l_post_id l = pid \<and> l_user_id l = uid) \<longrightarrow>
            fst (unlike_post pid req s) = Inr (jsonify (PDict [(''message'', PStr ''Post unliked successfully'')]) 200)
          \<and> (\<exists>l\<in>set (likes s). l_post_id l = pid \<and> l_user_id l = uid
                \<and> likes (snd (unlike_post pid req s)) = remove1 l (likes s))
          \<and> Suc (count_documents (\<lambda>l. l_post_id l = pid \<and> l_user_id l = uid)
                   (likes (snd (unlike_post pid req s))))
              = count_documents (\<lambda>l. l_post_id l = pid \<and> l_user_id l = uid) (likes s))"
proof -
  let ?q = "\<lambda>l. l_post_id l = pid \<and> l_user_id l = uid"
  have run: "unlike_post pid req s = unlike_post_body pid uid s"
    using assms by (simp add: unlike_post_def jwt_required_def)
  have absent: "(\<forall>p\<in>set (posts s). p_post_id p \<noteq> pid) \<longrightarrow>
            fst (unlike_post pid req s) = Inr (jsonify (PDict [(''error'', PStr ''Post not found'')]) 404)
          \<and> likes (snd (unlike_post pid req s)) = likes s"
    by (auto simp: run unlike_post_body_def find_one_None_iff Let_def)
  have noop: "(\<exists>p\<in>set (posts s). p_post_id p = pid) \<and> (\<forall>l\<in>set (likes s). \<not> ?q l) \<longrightarrow>
            fst (unlike_post pid req s) = Inr (jsonify (PDict [(''message'', PStr ''Post not liked yet'')]) 200)
          \<and> likes (snd (unlike_post pid req s)) = likes s"
    by (auto simp: run unlike_post_body_def find_one_None_iff Let_def)
  have removed: "(\<exists>p\<in>set (posts s). p_post_id p = pid) \<and> (\<exists>l\<in>set (likes s). ?q l) \<longrightarrow>
            fst (unlike_post pid req s) = Inr (jsonify (PDict [(''message'', PStr ''Post unliked successfully'')]) 200)
          \<and> (\<exists>l\<in>set (likes s). ?q l \<and> likes (snd (unlike_post pid req s)) = remove1 l (likes s))
          \<and> Suc (count_documents ?q (likes (snd (unlike_post pid req s)))) = count_documents ?q (likes s)"
  proof
    assume a: "(\<exists>p\<in>set (posts s). p_post_id p = pid) \<and> (\<exists>l\<in>set (likes s). ?q l)"
    then have found: "find_one ?q (likes s) \<noteq> None" and post: "find_one (\<lambda>p. p_post_id p = pid) (posts s) \<noteq> None"
      by (simp_all add: find_one_None_iff)
    then obtain l where l: "find_one ?q (likes s) = Some l" by blast
    have after: "likes (snd (unlike_post pid req s)) = delete_one ?q (likes s)"
      and reply: "fst (unlike_post pid req s) = Inr (jsonify (PDict [(''message'', PStr ''Post unliked successfully'')]) 200)"
      using found post by (auto simp: run unlike_post_body_def Let_def)
    have "l \<in> set (likes s) \<and> ?q l" using find_one_Some_holds [OF l] by simp
    moreover have "likes (snd (unlike_post pid req s)) = remove1 l (likes s)"
      using after delete_one_remove1 [OF l] by simp
    moreover have "Suc (count_documents ?q (likes (snd (unlike_post pid req s)))) = count_documents ?q (likes s)"
      using a after count_delete_one [of "likes s" ?q] by simp
    ultimately show "fst (unlike_post pid req s) = Inr (jsonify (PDict [(''message'', PStr ''Post unliked successfully'')]) 200)
          \<and> (\<exists>l\<in>set (likes s). ?q l \<and> likes (snd (unlike_post pid req s)) = remove1 l (likes s))
          \<and> Suc (count_documents ?q (likes (snd (unlike_post pid req s)))) = count_documents ?q (likes s)"
      using reply by blast
  qed
  from absent noop removed show ?thesis by blast
qed

text \<open>
  The three cases at concrete stores: an unknown post, a post alice has not liked, and a
  post alice has liked.
\<close>

theorem unlike_post_cases_witness:
  "bearer (as_user ''alice'' Map.empty) = Identity ''alice''
   \<and> fst (unlike_post ''p9'' (as_user ''alice'' Map.empty) liked_store)
       = Inr (jsonify (PDict [(''error'', PStr ''Post not found'')]) 404)
   \<and> fst (unlike_post ''p1'' (as_user ''alice'' Map.empty) people_store)
       = Inr (jsonify (PDict [(''message'', PStr ''Post not liked yet'')]) 200)
   \<and> likes (snd (unlike_post ''p1'' (as_user ''alice'' Map.empty) people_store)) = likes people_store
   \<and> fst (unlike_post ''p1'' (as_user ''alice'' Map.empty) liked_store)
       = Inr (jsonify (PDict [(''message'', PStr ''Post unliked successfully'')]) 200)
   \<and> Suc (count_documents (\<lambda>l. l_post_id l = ''p1'' \<and> l_user_id l = ''alice'')
            (likes (snd (unlike_post ''p1'' (as_user ''alice'' Map.empty) liked_store))))
       = count_documents (\<lambda>l. l_post_id l = ''p1'' \<and> l_user_id l = ''alice'') (likes liked_store)"
proof -
  have h: "bearer (as_user ''alice'' Map.empty) = Identity ''alice''"
    by (simp add: as_user_def)
  have a: "\<forall>p\<in>set (posts liked_store). p_post_id p \<noteq> ''p9''"
    by (simp add: ex_defs)
  have b: "(\<exists>p\<in>set (posts people_store). p_post_id p = ''p1'')
      \<and> (\<forall>l\<in>set (likes people_store). \<not> (l_post_id l = ''p1'' \<and> l_user_id l = ''alice''))"
    by (simp add: ex_defs)
  have c: "(\<exists>p\<in>set (posts liked_store). p_post_id p = ''p1'')
      \<and> (\<exists>l\<in>set (likes liked_store). l_post_id l = ''p1'' \<and> l_user_id l = ''alice'')"
    by (simp add: ex_defs)
  show ?thesis
    using unlike_post_cases [OF h, of liked_store "''p9''"] unlike_post_cases [OF h, of people_store "''p1''"]
      unlike_post_cases [OF h, of liked_store "''p1''"] h a b c
    by blast
qed

text \<open>
  C8. As stated, for every POST /post request whose JSON body omits \<^verbatim>\<open>caption\<close>, the claim
  does not hold.
  \<^item> The route is behind \<^verbatim>\<open>@jwt_required()\<close>, which answers before the body is looked at:
    a request with no token and the body \<^verbatim>\<open>{}\<close> is answered 401.
  \<^item> \<^verbatim>\<open>validate_request\<close> applies \<^verbatim>\<open>field not in data\<close> to whatever JSON value was sent. For
    alice sending \<^verbatim>\<open>null\<close> it raises \<^verbatim>\<open>TypeError\<close>; for alice sending the array
    \<^verbatim>\<open>["caption", "image_url"]\<close>, which has no \<^verbatim>\<open>caption\<close> field either, both names are found
    in the list, validation passes and \<^verbatim>\<open>data["caption"]\<close> raises \<^verbatim>\<open>TypeError\<close>.
  None of the three is answered 400.
\<close>

theorem create_post_missing_caption_not_400:
  "map_sum id status (fst (create_post env0 (anonymous Map.empty) empty_store)) = Inr 401
   \<and> fst (create_post env0 (sending ''alice'' JsonNull) empty_store)
       = Inl (TypeError ''argument of type NoneType is not iterable'')
   \<and> fst (create_post env0
            (sending ''alice'' (JsonArray [PStr ''caption'', PStr ''image_url''])) empty_store)
       = Inl (TypeError ''list indices must be integers or slices, not str'')"
  by (simp add: create_post_def jwt_required_def create_post_body_def request_json_def
      validate_request_def anonymous_def sending_def jsonify_def)

text \<open>
  C8, amended. For every authenticated POST /post request whose JSON body is an object
  without the key \<^verbatim>\<open>caption\<close>, the view answers 400 with the error
  \<^verbatim>\<open>Missing fields: caption\<close> (followed by \<^verbatim>\<open>, image_url\<close> when that key is missing too), and
  the store is left exactly as it was: no post is inserted.
\<close>

theorem create_post_missing_caption:
  assumes "bearer req = Identity uid"
    and "json req = Parsed (JsonObject d)"
    and "d ''caption'' = None"
  shows "fst (create_post e req s) =
           Inr (jsonify (PDict [(''error'', PStr (''Missing fields: caption'' @
                  (if d ''image_url'' = None then '', image_url'' else [])))]) 400)
       \<and> snd (create_post e req s) = s"
  using assms
  by (simp add: create_post_def jwt_required_def create_post_body_def missing_caption_message)

text \<open>
  Alice posts the object \<^verbatim>\<open>{"image_url": "http://img"}\<close>.
\<close>

theorem create_post_missing_caption_witness:
  "bearer (as_user ''alice'' [''image_url'' \<mapsto> PStr ''http://img'']) = Identity ''alice''
   \<and> json (as_user ''alice'' [''image_url'' \<mapsto> PStr ''http://img''])
       = Parsed (JsonObject [''image_url'' \<mapsto> PStr ''http://img''])
   \<and> [''image_url'' \<mapsto> PStr ''http://img''] ''caption'' = None
   \<and> fst (create_post env0 (as_user ''alice'' [''image_url'' \<mapsto> PStr ''http://img'']) people_store)
       = Inr (jsonify (PDict [(''error'', PStr ''Missing fields: caption'')]) 400)
   \<and> posts (snd (create_post env0 (as_user ''alice'' [''image_url'' \<mapsto> PStr ''http://img'']) people_store))
       = posts people_store"
proof -
  have h: "bearer (as_user ''alice'' [''image_url'' \<mapsto> PStr ''http://img'']) = Identity ''alice''"
    and j: "json (as_user ''alice'' [''image_url'' \<mapsto> PStr ''http://img''])
       = Parsed (JsonObject [''image_url'' \<mapsto> PStr ''http://img''])"
    by (simp_all add: as_user_def)
  have m: "[''image_url'' \<mapsto> PStr ''http://img''] ''caption'' = None"
    by simp
  show ?thesis
    using create_post_missing_caption [OF h j m, of env0 people_store] h j by simp
qed

text \<open>
  C9. For every request to GET /user/profile whose bearer token does not resolve, the
  answer is 401 and the store is returned as it was received; in particular its log of
  accesses has not grown, so neither the users nor the posts collection was read.
\<close>

theorem get_profile_unauthenticated:
  assumes "bearer req = Unauthenticated msg"
  shows "map_sum id status (fst (get_profile req s)) = Inr 401
       \<and> snd (get_profile req s) = s
       \<and> accesses (snd (get_profile req s)) = accesses s"
  using assms by (simp add: get_profile_def jwt_required_def jsonify_def)

text \<open>
  A request with no token, on a store whose access log is empty: it stays empty.
\<close>

theorem get_profile_unauthenticated_witness:
  "bearer (anonymous Map.empty) = Unauthenticated ''Missing Authorization Header''
   \<and> map_sum id status (fst (get_profile (anonymous Map.empty) people_store)) = Inr 401
   \<and> accesses (snd (get_profile (anonymous Map.empty) people_store)) = []"
proof -
  have h: "bearer (anonymous Map.empty) = Unauthenticated ''Missing Authorization Header''"
    by (simp add: anonymous_def)
  have a: "accesses people_store = []"
    by (simp add: people_store_def empty_store_def)
  show ?thesis
    using get_profile_unauthenticated [OF h, of people_store] h a by simp
qed

text \<open>
  C10. Validation does precede the post-existence check, but as stated, for every request
  whose body lacks the \<^verbatim>\<open>comment\<close> field, the claim does not hold.
  \<^item> The authentication gate precedes both: a request with no token and the body \<^verbatim>\<open>{}\<close> is
    answered 401.
  \<^item> \<^verbatim>\<open>field not in data\<close> is a substring test when the body is a JSON string: alice sending
    the string \<^verbatim>\<open>"comment"\<close>, which has no fields, passes validation, the posts collection
    is queried, and for the unknown post \<^verbatim>\<open>p9\<close> the answer is 404.
  \<^item> For alice sending \<^verbatim>\<open>null\<close> the test raises \<^verbatim>\<open>TypeError\<close>.
\<close>

theorem add_comment_missing_text_not_400:
  "map_sum id status (fst (add_comment env0 ''p9'' (anonymous Map.empty) people_store)) = Inr 401
   \<and> add_comment env0 ''p9'' (sending ''alice'' (JsonString ''comment'')) people_store
       = (Inr (jsonify (PDict [(''error'', PStr ''Post not found'')]) 404),
          people_store\<lparr>accesses := [FindOne Posts]\<rparr>)
   \<and> fst (add_comment env0 ''p9'' (sending ''alice'' JsonNull) people_store)
       = Inl (TypeError ''argument of type NoneType is not iterable'')"
  by (simp add: add_comment_def jwt_required_def add_comment_body_def request_json_def
      validate_request_def find_one_def touch_def anonymous_def sending_def jsonify_def
      people_store_def empty_store_def mk_post_def)

text \<open>
  C10, amended. For every authenticated POST /post/<post_id>/comment request whose JSON
  body is an object without the key \<^verbatim>\<open>comment\<close>, the answer is 400 with the error
  \<^verbatim>\<open>Missing fields: comment\<close>, whatever \<^verbatim>\<open>post_id\<close> is, and the store is returned as it was
  received: the posts collection is not even queried, so the 404 branch is never taken.
\<close>

theorem add_comment_validation_first:
  assumes "bearer req = Identity uid"
    and "json req = Parsed (JsonObject d)"
    and "d ''comment'' = None"
  shows "fst (add_comment e post_id req s) =
           Inr (jsonify (PDict [(''error'', PStr ''Missing fields: comment'')]) 400)
       \<and> snd (add_comment e post_id req s) = s"
  using assms
  by (simp add: add_comment_def jwt_required_def add_comment_body_def validate_request_def)

text \<open>
  Alice comments with the body \<^verbatim>\<open>{}\<close> on \<^verbatim>\<open>p9\<close>, which is no stored post: 400, and no
  access to the store.
\<close>

theorem add_comment_validation_first_witness:
  "bearer (as_user ''alice'' Map.empty) = Identity ''alice''
   \<and> json (as_user ''alice'' Map.empty) = Parsed (JsonObject Map.empty)
   \<and> find_one (\<lambda>p. p_post_id p = ''p9'') (posts people_store) = None
   \<and> fst (add_comment env0 ''p9'' (as_user ''alice'' Map.empty) people_store)
       = Inr (jsonify (PDict [(''error'', PStr ''Missing fields: comment'')]) 400)
   \<and> accesses (snd (add_comment env0 ''p9'' (as_user ''alice'' Map.empty) people_store)) = []"
proof -
  have h: "bearer (as_user ''alice'' Map.empty) = Identity ''alice''"
    and j: "json (as_user ''alice'' Map.empty) = Parsed (JsonObject Map.empty)"
    by (simp_all add: as_user_def)
  have m: "Map.empty ''comment'' = (None :: pyval option)"
    by simp
  have p: "find_one (\<lambda>p. p_post_id p = ''p9'') (posts people_store) = None"
    by (simp add: find_one_def people_store_def empty_store_def mk_post_def)
  have a: "accesses people_store = []"
    by (simp add: people_store_def empty_store_def)
  show ?thesis
    using add_comment_validation_first [OF h j m, of env0 "''p9''" people_store] h j p a by simp
qed

end
